theory Spec2Isabelle
  imports Main
begin

section \<open>The gateway of index.js\<close>

text \<open>
  The program is one file, \<^verbatim>\<open>index.js\<close>: it checks its configuration, builds a
  Bot Framework adapter with an error boundary (\<^verbatim>\<open>adapter.onTurnError\<close>), an in-memory
  store with Conversation State and User State over it, a restify server with two
  server-wide middlewares and three routes, and a process-wide handler for unobserved
  promise rejections.

  JavaScript strings are modelled by their UTF-8 bytes (\<^typ>\<open>string\<close> is a list of
  8-bit characters), so \<^verbatim>\<open>Buffer.byteLength\<close> is the length of the list, and a letter
  outside ASCII is written as its two bytes.
\<close>

subsection \<open>Strings and values of the language\<close>

definition oacute :: string where
  "oacute = [CHR 0xC3, CHR 0xB3]"

definition aacute :: string where
  "aacute = [CHR 0xC3, CHR 0xA1]"

definition newline :: string where
  "newline = [CHR 0x0A]"

definition byteLength :: "string \<Rightarrow> nat" where
  "byteLength s = length s"

text \<open>
  A property that may be missing is an \<open>option\<close>. \<^verbatim>\<open>a || b\<close> on such values is
  \<open>a\<close> when \<open>a\<close> is truthy (present and not the empty string) and \<open>b\<close> otherwise;
  a template literal prints a missing value as \<^verbatim>\<open>undefined\<close>.
\<close>

definition truthy :: "string option \<Rightarrow> bool" where
  "truthy v = (case v of None \<Rightarrow> False | Some s \<Rightarrow> s \<noteq> [])"

definition js_or :: "string option \<Rightarrow> string option \<Rightarrow> string option" where
  "js_or a b = (if truthy a then a else b)"

definition or_default :: "string option \<Rightarrow> string \<Rightarrow> string" where
  "or_default a d = (case a of None \<Rightarrow> d | Some s \<Rightarrow> if s = [] then d else s)"

definition interpolate :: "string option \<Rightarrow> string" where
  "interpolate v = (case v of None \<Rightarrow> ''undefined'' | Some s \<Rightarrow> s)"

text \<open>
  A thrown value: an error object with a name, a message and a stack trace.
  \<open>error_toString\<close> is \<^verbatim>\<open>Error.prototype.toString\<close>, which \<^verbatim>\<open>${error}\<close> calls.
\<close>

record js_error =
  name :: string
  message :: "string option"
  stack :: "string option"

definition error_toString :: "js_error \<Rightarrow> string" where
  "error_toString e =
     (let msg = (case message e of None \<Rightarrow> [] | Some m \<Rightarrow> m) in
      if name e = [] then msg
      else if msg = [] then name e
      else name e @ '': '' @ msg)"

subsection \<open>Activities, the store and the world around the process\<close>

text \<open>
  The deserialized body of a request to the messages endpoint (any of \<^verbatim>\<open>type\<close>,
  \<^verbatim>\<open>name\<close>, \<^verbatim>\<open>text\<close> and the conversation identifier may be missing), the
  activity of a turn, and the one kind of outbound activity the program sends itself: a
  message with a text (\<^verbatim>\<open>context.sendActivity(string)\<close>).
\<close>

record activity_json =
  body_type :: "string option"
  body_name :: "string option"
  body_text :: "string option"
  body_channel :: string
  body_conversation :: "string option"
  body_from :: string

record activity =
  activity_type :: string
  activity_name :: "string option"
  activity_text :: "string option"
  channelId :: string
  conversation_id :: string
  from_id :: string

datatype outbound = MessageActivity string

datatype jsval = JNum int | JStr string | JBool bool

type_synonym bag = "(string \<times> jsval) list"

text \<open>
  Modelled from the spec: the scope keys of the botbuilder library, which is not among
  the sources. Conversation State is keyed by (channel, conversation), User State by
  (channel, user); both live in the one \<^verbatim>\<open>MemoryStorage\<close> of line 56.
\<close>

datatype scope = ConversationScope string string | UserScope string string

datatype log_line = ConsoleLog string | ConsoleError string

datatype proc_status = Running | Exited nat

text \<open>
  The world is the process and what it talks to: whether the process runs, the port it
  listens on, whether the \<^verbatim>\<open>unhandledRejection\<close> listener is installed, the console, the
  store, and the activities delivered to the user. \<open>store_failure\<close> and
  \<open>send_failure\<close> say how the two external services answer at this moment: the error
  with which a store operation, or the delivery of an outbound activity, is rejected.
\<close>

record world =
  status :: proc_status
  listening :: "string option"
  rejection_listener :: bool
  console :: "log_line list"
  store :: "scope \<rightharpoonup> bag"
  outbox :: "outbound list"
  store_failure :: "js_error option"
  send_failure :: "js_error option"

text \<open>
  The turn context: the activity of the turn and the state bags the accessors have
  loaded for it (the library keeps them in the context until they are flushed).
\<close>

record turn_context =
  turn_activity :: activity
  conversation_cached :: "bag option"
  user_cached :: "bag option"

definition conversation_scope :: "turn_context \<Rightarrow> scope" where
  "conversation_scope context =
     ConversationScope (channelId (turn_activity context))
       (conversation_id (turn_activity context))"

definition user_scope :: "turn_context \<Rightarrow> scope" where
  "user_scope context =
     UserScope (channelId (turn_activity context)) (from_id (turn_activity context))"

text \<open>
  Modelled from the spec: \<^verbatim>\<open>conversationState.delete(context)\<close> and
  \<^verbatim>\<open>context.sendActivity(text)\<close> of the botbuilder library. Deleting drops the bag
  cached in the context and removes the scope's entry from the store; sending appends
  one message activity to what the user receives. Either is rejected when its service
  fails, and a rejected operation leaves store and outbox as they were.
\<close>

definition conversationState_delete ::
  "turn_context \<Rightarrow> world \<Rightarrow> (js_error + unit) \<times> turn_context \<times> world" where
  "conversationState_delete context w =
     (let context' = context\<lparr>conversation_cached := None\<rparr> in
      case store_failure w of
        Some e \<Rightarrow> (Inl e, context', w)
      | None \<Rightarrow>
          (Inr (), context', w\<lparr>store := (store w)(conversation_scope context := None)\<rparr>))"

definition sendActivity :: "string \<Rightarrow> world \<Rightarrow> (js_error + unit) \<times> world" where
  "sendActivity text w =
     (case send_failure w of
        Some e \<Rightarrow> (Inl e, w)
      | None \<Rightarrow> (Inr (), w\<lparr>outbox := outbox w @ [MessageActivity text]\<rparr>))"

text \<open>What a turn reads for a scope: the stored bag, or the empty bag when none is stored.\<close>

definition stored_bag :: "world \<Rightarrow> scope \<Rightarrow> bag" where
  "stored_bag w k = (case store w k of None \<Rightarrow> [] | Some b \<Rightarrow> b)"

subsection \<open>The error boundary (lines 43 to 53)\<close>

definition default_error_text :: string where
  "default_error_text = ''Ocurri'' @ oacute @ '' un error inesperado.''"

definition apology_prefix :: string where
  "apology_prefix = ''Lo siento, ocurri'' @ oacute @ '' un error. ''"

definition errorMsg :: "js_error \<Rightarrow> string" where
  "errorMsg error = or_default (message error) default_error_text"

definition apology_text :: "js_error \<Rightarrow> string" where
  "apology_text error = apology_prefix @ errorMsg error"

definition onTurnError ::
  "turn_context \<Rightarrow> js_error \<Rightarrow> world \<Rightarrow> (js_error + unit) \<times> turn_context \<times> world" where
  "onTurnError context error w =
     (let w1 = w\<lparr>console := console w @
                 [ConsoleError (newline @ '' [onTurnError] Error no manejado: '' @
                    error_toString error),
                  ConsoleError (''Stack: '' @ interpolate (stack error))]\<rparr>
      in case conversationState_delete context w1 of
        (Inl e, context', w2) \<Rightarrow> (Inl e, context', w2)
      | (Inr _, context', w2) \<Rightarrow>
          (case sendActivity (apology_text error) w2 of
             (r, w3) \<Rightarrow> (r, context', w3)))"

subsection \<open>The bot handler\<close>

text \<open>
  Modelled from the spec: the bot of \<^verbatim>\<open>bots/teamsBot\<close> and the dialog of
  \<^verbatim>\<open>dialogs/mainDialog\<close>, which are not among the sources (section 4.3, the Activity
  Dispatcher). The dialog logic is opaque: a handler is given the activity and the two
  state bags of the turn and says what it leaves in the bags, which message texts it
  sends, what it returns and whether it throws. A bot has a handler for messages and
  handlers for invokes, keyed by the activity's name.
\<close>

record handler_outcome =
  conversation_after :: bag
  user_after :: bag
  replies :: "string list"
  returned :: "string option"
  thrown :: "js_error option"

type_synonym handler = "activity \<Rightarrow> bag \<Rightarrow> bag \<Rightarrow> handler_outcome"

record bot =
  on_message :: handler
  on_invoke :: "string \<rightharpoonup> handler"

text \<open>
  Modelled from the spec: the scoped state accessors of the botbuilder library. A bag
  is loaded from the store on first access in a turn and kept in the context; a flush
  writes the bag kept in the context to the store.
\<close>

definition load_state :: "scope \<Rightarrow> bag option \<Rightarrow> world \<Rightarrow> js_error + bag" where
  "load_state k cached w =
     (case cached of
        Some b \<Rightarrow> Inr b
      | None \<Rightarrow> (case store_failure w of Some e \<Rightarrow> Inl e | None \<Rightarrow> Inr (stored_bag w k)))"

definition saveChanges :: "scope \<Rightarrow> bag option \<Rightarrow> world \<Rightarrow> (js_error + unit) \<times> world" where
  "saveChanges k cached w =
     (case cached of
        None \<Rightarrow> (Inr (), w)
      | Some b \<Rightarrow>
          (case store_failure w of
             Some e \<Rightarrow> (Inl e, w)
           | None \<Rightarrow> (Inr (), w\<lparr>store := (store w)(k \<mapsto> b)\<rparr>)))"

text \<open>
  Modelled from the spec: the replies of a handler go out through \<open>sendActivity\<close>
  one by one, and the first rejected delivery is thrown.
\<close>

fun send_all :: "string list \<Rightarrow> world \<Rightarrow> (js_error + unit) \<times> world" where
  "send_all [] w = (Inr (), w)"
| "send_all (t # ts) w =
     (case sendActivity t w of
        (Inl e, w') \<Rightarrow> (Inl e, w')
      | (Inr _, w') \<Rightarrow> send_all ts w')"

text \<open>
  Modelled from the spec: running a handler (sections 2 and 4.3). The two bags are
  loaded, the handler works on them (its changes stay in the context, the store is not
  written), its replies are sent, and what it throws is thrown.
\<close>

definition run_handler ::
  "handler \<Rightarrow> turn_context \<Rightarrow> world \<Rightarrow> (js_error + string option) \<times> turn_context \<times> world" where
  "run_handler h context w =
     (case load_state (conversation_scope context) (conversation_cached context) w of
        Inl e \<Rightarrow> (Inl e, context, w)
      | Inr cb \<Rightarrow>
          (case load_state (user_scope context) (user_cached context) w of
             Inl e \<Rightarrow> (Inl e, context\<lparr>conversation_cached := Some cb\<rparr>, w)
           | Inr ub \<Rightarrow>
               (let out = h (turn_activity context) cb ub;
                    context' = context\<lparr>conversation_cached := Some (conversation_after out),
                                       user_cached := Some (user_after out)\<rparr>
                in case send_all (replies out) w of
                     (Inl e, w') \<Rightarrow> (Inl e, context', w')
                   | (Inr _, w') \<Rightarrow>
                       (case thrown out of
                          Some e \<Rightarrow> (Inl e, context', w')
                        | None \<Rightarrow> (Inr (returned out), context', w')))))"

text \<open>
  Modelled from the spec: steps 1 to 4 of the dispatcher (section 4.3), which route by
  the activity's type. An invoke without a handler for its name, and an activity of any
  other type, is acknowledged and not acted on.
\<close>

definition dispatch ::
  "bot \<Rightarrow> turn_context \<Rightarrow> world \<Rightarrow> (js_error + string option) \<times> turn_context \<times> world" where
  "dispatch b context w =
     (let a = turn_activity context in
      if activity_type a = ''message'' then run_handler (on_message b) context w
      else if activity_type a = ''invoke'' then
        (case activity_name a of
           None \<Rightarrow> (Inr None, context, w)
         | Some n \<Rightarrow>
             (case on_invoke b n of
                None \<Rightarrow> (Inr None, context, w)
              | Some h \<Rightarrow> run_handler h context w))
      else (Inr None, context, w))"

text \<open>
  Modelled from the spec: step 5 of the dispatcher, the save point. After a dispatch
  that completed, Conversation State and then User State are flushed; a dispatch that
  threw is not followed by a flush. \<open>bot_run\<close> is \<^verbatim>\<open>bot.run(context)\<close> of line 124.
\<close>

definition bot_run ::
  "bot \<Rightarrow> turn_context \<Rightarrow> world \<Rightarrow> (js_error + string option) \<times> turn_context \<times> world" where
  "bot_run b context w =
     (case dispatch b context w of
        (Inl e, context1, w1) \<Rightarrow> (Inl e, context1, w1)
      | (Inr v, context1, w1) \<Rightarrow>
          (case saveChanges (conversation_scope context1) (conversation_cached context1) w1 of
             (Inl e, w2) \<Rightarrow> (Inl e, context1, w2)
           | (Inr _, w2) \<Rightarrow>
               (case saveChanges (user_scope context1) (user_cached context1) w2 of
                  (Inl e, w3) \<Rightarrow> (Inl e, context1, w3)
                | (Inr _, w3) \<Rightarrow> (Inr v, context1, w3))))"

subsection \<open>Requests, responses and the adapter\<close>

datatype http_method = GET | POST | PUT | DELETE | OPTIONS | HEAD

datatype payload = NoBody | Unparsable | Json activity_json

datatype header_value = Str string | Num nat

text \<open>
  A request as the routes see it: \<open>path\<close> is the path after
  \<^verbatim>\<open>restify.pre.sanitizePath()\<close>, \<open>query\<close> the raw query string, \<open>turnState\<close> the
  property that \<^verbatim>\<open>addBotToTurnState\<close> creates when the request has none.
\<close>

record request =
  verb :: http_method
  path :: string
  query :: string
  body :: payload
  turnState :: "(string \<rightharpoonup> bot) option"

record response =
  statusCode :: nat
  headers :: "string \<rightharpoonup> header_value"
  content :: string

definition fresh_response :: response where
  "fresh_response = \<lparr>statusCode = 200, headers = Map.empty, content = []\<rparr>"

definition MalformedActivity :: js_error where
  "MalformedActivity =
     \<lparr>name = ''MalformedActivity'', message = Some ''missing activity type or conversation id'',
      stack = None\<rparr>"

text \<open>
  Modelled from the spec: Turn Context construction (section 4.1) in the botbuilder
  library. It fails with \<open>MalformedActivity\<close> when the type or the conversation
  identifier is absent.
\<close>

definition turn_context_of :: "payload \<Rightarrow> js_error + turn_context" where
  "turn_context_of p =
     (case p of
        Json b \<Rightarrow>
          (case body_type b of
             None \<Rightarrow> Inl MalformedActivity
           | Some t \<Rightarrow>
               (case body_conversation b of
                  None \<Rightarrow> Inl MalformedActivity
                | Some c \<Rightarrow>
                    Inr \<lparr>turn_activity =
                           \<lparr>activity_type = t, activity_name = body_name b,
                            activity_text = body_text b, channelId = body_channel b,
                            conversation_id = c, from_id = body_from b\<rparr>,
                         conversation_cached = None, user_cached = None\<rparr>))
      | _ \<Rightarrow> Inl MalformedActivity)"

text \<open>
  Modelled from the spec: \<^verbatim>\<open>adapter.process(req, res, logic)\<close> of the botbuilder
  library (sections 4.4 and 6). It builds the turn context, runs the logic, and hands
  what the logic throws to \<open>onTurnError\<close>, the handler that line 43 installs on the
  adapter. A turn that completes, or that the error boundary recovers, is answered with
  200 and the value the logic returned; a failure before the turn, or of the error
  boundary itself, is thrown to the caller.
\<close>

definition adapter_process ::
  "(turn_context \<Rightarrow> world \<Rightarrow> (js_error + string option) \<times> turn_context \<times> world) \<Rightarrow>
   request \<Rightarrow> response \<Rightarrow> world \<Rightarrow> (js_error + response) \<times> world" where
  "adapter_process logic req res w =
     (case turn_context_of (body req) of
        Inl e \<Rightarrow> (Inl e, w)
      | Inr context \<Rightarrow>
          (case logic context w of
             (Inr v, _, w1) \<Rightarrow>
               (Inr (res\<lparr>statusCode := 200, content := (case v of None \<Rightarrow> [] | Some j \<Rightarrow> j)\<rparr>), w1)
           | (Inl error, context1, w1) \<Rightarrow>
               (case onTurnError context1 error w1 of
                  (Inl e, _, w2) \<Rightarrow> (Inl e, w2)
                | (Inr _, _, w2) \<Rightarrow> (Inr (res\<lparr>statusCode := 200\<rparr>), w2))))"

subsection \<open>The middlewares and the routes (lines 82 to 162)\<close>

definition crossOrigin :: "response \<Rightarrow> response" where
  "crossOrigin res =
     res\<lparr>headers := (headers res)
       (''Access-Control-Allow-Origin'' \<mapsto> Str ''*'',
        ''Access-Control-Allow-Headers'' \<mapsto>
           Str ''X-Requested-With, Content-Type, Accept, Origin, Authorization'',
        ''Access-Control-Allow-Methods'' \<mapsto> Str ''GET, POST, PUT, DELETE, OPTIONS'')\<rparr>"

definition addBotToTurnState :: "bot \<Rightarrow> request \<Rightarrow> request" where
  "addBotToTurnState b req =
     req\<lparr>turnState :=
       Some ((case turnState req of None \<Rightarrow> Map.empty | Some m \<Rightarrow> m)(''bot'' \<mapsto> b))\<rparr>"

definition dquote :: string where
  "dquote = [CHR 0x22]"

text \<open>
  The activity log of lines 106 to 120. Nothing in it can throw on a body of this
  shape, so its \<^verbatim>\<open>catch\<close> has no branch here.
\<close>

definition log_activity :: "payload \<Rightarrow> log_line list" where
  "log_activity p =
     (case p of
        Json b \<Rightarrow>
          ConsoleLog (''Actividad recibida - Tipo: '' @ interpolate (body_type b) @
                      '', Nombre: '' @ or_default (body_name b) ''N/A'') #
          (if body_type b = Some ''message'' then
             [ConsoleLog (''Mensaje: '' @ dquote @ interpolate (body_text b) @ dquote)]
           else if body_type b = Some ''invoke'' then
             [ConsoleLog (''Actividad de invoke: '' @ dquote @ interpolate (body_name b) @ dquote)]
           else [])
      | _ \<Rightarrow> [])"

text \<open>
  The handler of the messages route (lines 104 to 130): the activity log, then the
  adapter. What the adapter throws is caught and logged, and line 128 answers it with
  \<^verbatim>\<open>res.status(500).send(text)\<close>. On a restify response \<^verbatim>\<open>status\<close> sets the status
  code and returns the number it was given, not the response, so the call of
  \<^verbatim>\<open>send\<close> on that number throws a \<^verbatim>\<open>TypeError\<close>: the status is set, the text is
  never sent, and the handler throws out of its \<^verbatim>\<open>catch\<close>. The result is what the
  handler throws (if anything) and the response as the handler leaves it.
\<close>

definition send_is_not_a_function :: js_error where
  "send_is_not_a_function =
     \<lparr>name = ''TypeError'', message = Some ''res.status(...).send is not a function'',
      stack = None\<rparr>"

definition api_messages ::
  "bot \<Rightarrow> request \<Rightarrow> response \<Rightarrow> world \<Rightarrow> (js_error option \<times> response) \<times> world" where
  "api_messages b req res w =
     (let w1 = w\<lparr>console := console w @ log_activity (body req)\<rparr> in
      case adapter_process (bot_run b) req res w1 of
        (Inr res', w2) \<Rightarrow> ((None, res'), w2)
      | (Inl error, w2) \<Rightarrow>
          ((Some send_is_not_a_function, res\<lparr>statusCode := 500\<rparr>),
           w2\<lparr>console := console w2 @
                 [ConsoleError (''Error al procesar mensaje: '' @ interpolate (message error)),
                  ConsoleError (interpolate (stack error))]\<rparr>))"

definition htmlContent :: string where
  "htmlContent =
     newline @ ''    <html>'' @
     newline @ ''        <body>'' @
     newline @ ''            <p>Autenticaci'' @ oacute @
       ''n completada. Puedes cerrar esta ventana y volver a Teams.</p>'' @
     newline @ ''            <script>'' @
     newline @ ''                setTimeout(function() {'' @
     newline @ ''                    window.close();'' @
     newline @ ''                }, 3000);'' @
     newline @ ''            </script>'' @
     newline @ ''        </body>'' @
     newline @ ''    </html>''"

definition oauthcallback :: "request \<Rightarrow> response \<Rightarrow> world \<Rightarrow> response \<times> world" where
  "oauthcallback req res w =
     (res\<lparr>statusCode := 200,
          headers := (headers res)
            (''Content-Length'' \<mapsto> Num (byteLength htmlContent),
             ''Content-Type'' \<mapsto> Str ''text/html''),
          content := content res @ htmlContent\<rparr>,
      w\<lparr>console := console w @ [ConsoleLog ''Recibida solicitud a /oauthcallback'']\<rparr>)"

text \<open>
  \<^verbatim>\<open>restify.plugins.serveStatic\<close> over the files of the public directory, given as a
  map from request paths to contents: the file with 200, or 404. The plugin adds headers
  of its own, which are left out; it removes none.
\<close>

definition serveStatic :: "(string \<rightharpoonup> string) \<Rightarrow> request \<Rightarrow> response \<Rightarrow> response" where
  "serveStatic files req res =
     (case files (path req) of
        None \<Rightarrow> res\<lparr>statusCode := 404\<rparr>
      | Some f \<Rightarrow> res\<lparr>statusCode := 200, content := f\<rparr>)"

subsection \<open>The server\<close>

text \<open>
  The request lifecycle of restify for the server that lines 69 to 162 configure. The
  router looks the route up first and answers a request that has none by itself (404
  for an unknown path, 405 for a known path under another method). For a routed request
  the handlers registered with \<^verbatim>\<open>server.use\<close> run in the order of their registration,
  the body parser of line 70 before \<open>crossOrigin\<close> of line 82, and then the handlers
  of the route. The body parser lets GET and HEAD requests through unread and ends a
  request whose body it cannot parse with 400; a handler that ends the request stops
  the chain. When the handler of a route throws, the response is given as the handler
  left it; the body that restify makes of the error is left out.
\<close>

datatype route = ApiMessages | PublicFiles | OAuthCallback

definition known_path :: "string \<Rightarrow> route option" where
  "known_path p =
     (if p = ''/api/messages'' then Some ApiMessages
      else if take 8 p = ''/public/'' then Some PublicFiles
      else if p = ''/oauthcallback'' then Some OAuthCallback
      else None)"

definition route_method :: "route \<Rightarrow> http_method" where
  "route_method r = (case r of ApiMessages \<Rightarrow> POST | PublicFiles \<Rightarrow> GET | OAuthCallback \<Rightarrow> GET)"

definition find_route :: "request \<Rightarrow> nat + route" where
  "find_route req =
     (case known_path (path req) of
        None \<Rightarrow> Inl 404
      | Some r \<Rightarrow> if verb req = route_method r then Inr r else Inl 405)"

definition bodyParser :: "request \<Rightarrow> bool" where
  "bodyParser req =
     (if verb req = GET then True
      else if verb req = HEAD then True
      else (case body req of Unparsable \<Rightarrow> False | _ \<Rightarrow> True))"

definition serve ::
  "(string \<rightharpoonup> string) \<Rightarrow> bot \<Rightarrow> request \<Rightarrow> world \<Rightarrow> response \<times> world" where
  "serve files b req w =
     (case find_route req of
        Inl code \<Rightarrow> (fresh_response\<lparr>statusCode := code\<rparr>, w)
      | Inr r \<Rightarrow>
          if bodyParser req then
            (let res = crossOrigin fresh_response in
             case r of
               ApiMessages \<Rightarrow>
                 (case api_messages b (addBotToTurnState b req) res w of
                    ((t, res'), w') \<Rightarrow> (res', w'))
             | PublicFiles \<Rightarrow> (serveStatic files req res, w)
             | OAuthCallback \<Rightarrow> oauthcallback req res w)
          else (fresh_response\<lparr>statusCode := 400\<rparr>, w))"

subsection \<open>Startup and the life of the process\<close>

text \<open>
  The environment is \<^verbatim>\<open>process.env\<close> after \<^verbatim>\<open>dotenv\<close> has loaded the \<^verbatim>\<open>.env\<close> file
  (line 6). The module body runs from top to bottom: the check of the connection name
  (lines 24 to 28) comes before \<^verbatim>\<open>server.listen\<close> (line 74), the registration of the
  \<^verbatim>\<open>unhandledRejection\<close> listener (line 165) and the three closing log lines.
\<close>

type_synonym environment = "string \<rightharpoonup> string"

definition connectionName :: "environment \<Rightarrow> string option" where
  "connectionName env = js_or (env ''connectionName'') (env ''OAUTH_CONNECTION_NAME'')"

definition port :: "environment \<Rightarrow> string" where
  "port env = or_default (js_or (env ''PORT'') (env ''port'')) ''3978''"

definition boot_world :: world where
  "boot_world =
     \<lparr>status = Running, listening = None, rejection_listener = False, console = [],
      store = Map.empty, outbox = [], store_failure = None, send_failure = None\<rparr>"

definition startup :: "environment \<Rightarrow> world \<Rightarrow> world" where
  "startup env w =
     (if truthy (connectionName env) then
        w\<lparr>store := Map.empty,
          listening := Some (port env),
          rejection_listener := True,
          console := console w @
            [ConsoleLog (''Bot iniciado. Ejecut'' @ aacute @ ''ndose en el puerto '' @ port env),
             ConsoleLog (''Nombre de conexi'' @ oacute @ ''n OAuth configurado: '' @
                         interpolate (connectionName env)),
             ConsoleLog (''Para verificar la configuraci'' @ oacute @
                         ''n de autenticaci'' @ oacute @ ''n, revisa el archivo .env'')]\<rparr>
      else
        w\<lparr>console := console w @
            [ConsoleError (''ERROR: Nombre de conexi'' @ oacute @
               ''n OAuth no configurado. Por favor, configura la variable connectionName '' @
               ''en el archivo .env'')],
          status := Exited 1\<rparr>)"

text \<open>
  The callback of \<^verbatim>\<open>server.listen\<close> (lines 74 to 78) runs once the port is bound and
  only logs; the name and the address of the server are restify's.
\<close>

definition listen_callback :: "string \<Rightarrow> string \<Rightarrow> environment \<Rightarrow> world \<Rightarrow> world" where
  "listen_callback server_name server_url env w =
     w\<lparr>console := console w @
        [ConsoleLog (newline @ server_name @ '' escuchando en '' @ server_url),
         ConsoleLog (newline @ ''Para usar Bot Framework Emulator, ve a '' @
           ''https://docs.microsoft.com/en-us/azure/bot-service/bot-service-debug-emulator''),
         ConsoleLog (newline @ ''Nombre de conexi'' @ oacute @ ''n OAuth configurado: '' @
           interpolate (connectionName env))]\<rparr>"

text \<open>
  The listener of line 165, and what the runtime does with a promise that is rejected
  and observed by nobody: it calls the listeners of \<^verbatim>\<open>unhandledRejection\<close>, and ends
  the process with exit code 1 when there is none.
\<close>

definition unhandledRejection :: "string \<Rightarrow> world \<Rightarrow> world" where
  "unhandledRejection reason w =
     w\<lparr>console := console w @ [ConsoleError (''Unhandled Promise Rejection: '' @ reason)]\<rparr>"

definition unobserved_rejection :: "string \<Rightarrow> world \<Rightarrow> world" where
  "unobserved_rejection reason w =
     (case status w of
        Exited n \<Rightarrow> w
      | Running \<Rightarrow>
          if rejection_listener w then unhandledRejection reason w
          else w\<lparr>status := Exited 1\<rparr>)"

text \<open>
  What happens to a started process: a request arrives, or a promise is rejected
  unobserved. A process that has exited, or never bound its port, serves nothing.
\<close>

datatype event = Request request | Rejection string

definition handle_event :: "(string \<rightharpoonup> string) \<Rightarrow> bot \<Rightarrow> event \<Rightarrow> world \<Rightarrow> world" where
  "handle_event files b ev w =
     (case ev of
        Rejection reason \<Rightarrow> unobserved_rejection reason w
      | Request req \<Rightarrow>
          (case status w of
             Exited n \<Rightarrow> w
           | Running \<Rightarrow>
               (case listening w of None \<Rightarrow> w | Some p \<Rightarrow> snd (serve files b req w))))"

fun run_events :: "(string \<rightharpoonup> string) \<Rightarrow> bot \<Rightarrow> event list \<Rightarrow> world \<Rightarrow> world" where
  "run_events files b [] w = w"
| "run_events files b (ev # evs) w = run_events files b evs (handle_event files b ev w)"

subsection \<open>What a step leaves alone\<close>

text \<open>
  Two predicates for the proofs: \<open>same_process\<close> relates a world to a later one in
  which the process is as it was (status, port, listener, the state of the services)
  and the console has only grown; \<open>alive\<close> is a running process with the rejection
  listener installed.
\<close>

definition same_process :: "world \<Rightarrow> world \<Rightarrow> bool" where
  "same_process w w' \<longleftrightarrow>
     status w' = status w \<and> listening w' = listening w \<and>
     rejection_listener w' = rejection_listener w \<and>
     store_failure w' = store_failure w \<and> send_failure w' = send_failure w \<and>
     (\<exists>ls. console w' = console w @ ls)"

definition alive :: "world \<Rightarrow> bool" where
  "alive w \<longleftrightarrow> status w = Running \<and> rejection_listener w"

subsection \<open>Concrete inputs\<close>

text \<open>
  The scenario of the spec: the message \<^verbatim>\<open>hello\<close> in conversation \<^verbatim>\<open>c1\<close> from user
  \<^verbatim>\<open>u1\<close>, a handler that counts the turns of the conversation, and a handler that
  changes the state half way and throws.
\<close>

definition sample_body :: activity_json where
  "sample_body =
     \<lparr>body_type = Some ''message'', body_name = None, body_text = Some ''hello'',
      body_channel = ''msteams'', body_conversation = Some ''c1'', body_from = ''u1''\<rparr>"

definition sample_activity :: activity where
  "sample_activity =
     \<lparr>activity_type = ''message'', activity_name = None, activity_text = Some ''hello'',
      channelId = ''msteams'', conversation_id = ''c1'', from_id = ''u1''\<rparr>"

definition fresh_context :: turn_context where
  "fresh_context =
     \<lparr>turn_activity = sample_activity, conversation_cached = None, user_cached = None\<rparr>"

definition sample_context :: turn_context where
  "sample_context =
     \<lparr>turn_activity = sample_activity,
      conversation_cached = Some [(''step'', JStr ''half done''), (''count'', JNum 1)],
      user_cached = Some [(''lang'', JStr ''es'')]\<rparr>"

definition sample_error :: js_error where
  "sample_error =
     \<lparr>name = ''Error'', message = Some ''boom'', stack = Some ''Error: boom at run''\<rparr>"

definition silent_error :: js_error where
  "silent_error = \<lparr>name = ''Error'', message = Some [], stack = Some ''Error at run''\<rparr>"

definition network_error :: js_error where
  "network_error =
     \<lparr>name = ''FetchError'', message = Some ''connector unreachable'', stack = None\<rparr>"

definition counting_handler :: handler where
  "counting_handler a cb ub =
     \<lparr>conversation_after =
        [(''count'', JNum (case map_of cb ''count'' of Some (JNum n) \<Rightarrow> n + 1 | _ \<Rightarrow> 1))],
      user_after = ub, replies = [], returned = None, thrown = None\<rparr>"


definition sample_bot :: bot where
  "sample_bot = \<lparr>on_message = counting_handler, on_invoke = Map.empty\<rparr>"


definition sample_env :: environment where
  "sample_env = [''connectionName'' \<mapsto> ''teams-oauth'']"

definition sample_world :: world where
  "sample_world =
     boot_world\<lparr>listening := Some ''3978'', rejection_listener := True,
       store := [ConversationScope ''msteams'' ''c1'' \<mapsto> [(''count'', JNum 1)],
                 UserScope ''msteams'' ''u1'' \<mapsto> [(''lang'', JStr ''es'')]]\<rparr>"

definition offline_world :: world where
  "offline_world = sample_world\<lparr>send_failure := Some network_error\<rparr>"

definition sample_request :: request where
  "sample_request =
     \<lparr>verb = POST, path = ''/api/messages'', query = [], body = Json sample_body,
      turnState = None\<rparr>"

definition unparsable_request :: request where
  "unparsable_request =
     \<lparr>verb = POST, path = ''/api/messages'', query = [], body = Unparsable,
      turnState = None\<rparr>"

definition plain_callback :: request where
  "plain_callback =
     \<lparr>verb = GET, path = ''/oauthcallback'', query = [], body = NoBody, turnState = None\<rparr>"

definition query_callback :: request where
  "query_callback =
     \<lparr>verb = GET, path = ''/oauthcallback'', query = ''code=abc&state=xyz'', body = NoBody,
      turnState = None\<rparr>"

section \<open>Frame lemmas\<close>

lemma same_process_refl: "same_process w w"
  by (simp add: same_process_def)

lemma same_process_trans:
  "same_process w w' \<Longrightarrow> same_process w' w'' \<Longrightarrow> same_process w w''"
  by (auto simp: same_process_def)

lemma sendActivity_frame:
  "sendActivity t w = (r, w') \<Longrightarrow>
     same_process w w' \<and> store w' = store w \<and> console w' = console w"
  by (auto simp: sendActivity_def same_process_def split: option.splits)

lemma send_all_frame:
  "send_all ts w = (r, w') \<Longrightarrow>
     same_process w w' \<and> store w' = store w \<and> console w' = console w"
proof (induction ts arbitrary: w)
  case Nil
  then show ?case by (simp add: same_process_refl)
next
  case (Cons t ts)
  obtain r1 w1 where s: "sendActivity t w = (r1, w1)" by (cases "sendActivity t w")
  note f = sendActivity_frame[OF s]
  show ?case
  proof (cases r1)
    case (Inl e)
    with Cons.prems s f show ?thesis by simp
  next
    case (Inr u)
    with Cons.prems s have "send_all ts w1 = (r, w')" by simp
    from Cons.IH[OF this] f show ?thesis
      by (auto intro: same_process_trans)
  qed
qed

lemma run_handler_frame:
  "run_handler h ctx w = (r, ctx', w') \<Longrightarrow>
     same_process w w' \<and> store w' = store w \<and> console w' = console w"
  by (auto simp: run_handler_def Let_def same_process_refl
      split: sum.splits option.splits prod.splits dest: send_all_frame)

lemma dispatch_frame:
  "dispatch b ctx w = (r, ctx', w') \<Longrightarrow>
     same_process w w' \<and> store w' = store w \<and> console w' = console w"
  by (auto simp: dispatch_def Let_def same_process_refl
      split: if_splits option.splits dest: run_handler_frame)

lemma dispatch_store: "store (snd (snd (dispatch b ctx w))) = store w"
  using dispatch_frame[of b ctx w] by (cases "dispatch b ctx w") simp

lemma saveChanges_frame:
  "saveChanges k c w = (r, w') \<Longrightarrow>
     same_process w w' \<and> outbox w' = outbox w \<and> console w' = console w"
  by (auto simp: saveChanges_def same_process_def split: option.splits)

lemma bot_run_frame:
  "bot_run b ctx w = (r, ctx', w') \<Longrightarrow> same_process w w' \<and> console w' = console w"
  by (auto simp: bot_run_def split: prod.splits sum.splits
      dest!: dispatch_frame saveChanges_frame intro: same_process_trans)

lemma onTurnError_frame:
  "onTurnError ctx error w = (r, ctx', w') \<Longrightarrow> same_process w w'"
  by (auto simp: onTurnError_def conversationState_delete_def sendActivity_def Let_def
      same_process_def split: option.splits)

lemma adapter_process_frame:
  "adapter_process (bot_run b) req res w = (r, w') \<Longrightarrow> same_process w w'"
  by (auto simp: adapter_process_def same_process_refl split: prod.splits sum.splits
      dest!: bot_run_frame onTurnError_frame intro: same_process_trans)

lemma adapter_process_headers:
  "adapter_process logic req res w = (Inr res', w') \<Longrightarrow> headers res' = headers res"
  by (auto simp: adapter_process_def split: prod.splits sum.splits)

lemma api_messages_frame:
  "api_messages b req res w = (r, w') \<Longrightarrow> same_process w w'"
  apply (auto simp: api_messages_def Let_def split: prod.splits sum.splits
      dest!: adapter_process_frame)
  apply (auto simp: same_process_def)
  done

lemma api_messages_headers:
  "api_messages b req res w = ((t, res'), w') \<Longrightarrow> headers res' = headers res"
  by (auto simp: api_messages_def Let_def split: prod.splits sum.splits
      dest!: adapter_process_headers)

lemma serve_frame: "serve files b req w = (res, w') \<Longrightarrow> same_process w w'"
  by (auto simp: serve_def oauthcallback_def Let_def same_process_refl
      split: sum.splits if_splits route.splits prod.splits dest!: api_messages_frame)
    (auto simp: same_process_def)

section \<open>The error boundary\<close>

lemma onTurnError_ok:
  assumes "store_failure w = None" and "send_failure w = None"
  shows "onTurnError ctx error w =
     (Inr (), ctx\<lparr>conversation_cached := None\<rparr>,
      w\<lparr>console := console w @
            [ConsoleError (newline @ '' [onTurnError] Error no manejado: '' @
               error_toString error),
             ConsoleError (''Stack: '' @ interpolate (stack error))],
        store := (store w)(conversation_scope ctx := None),
        outbox := outbox w @ [MessageActivity (apology_text error)]\<rparr>)"
  using assms
  by (simp add: onTurnError_def conversationState_delete_def sendActivity_def Let_def)

lemma onTurnError_store:
  "store (snd (snd (onTurnError ctx error w))) =
     (if store_failure w = None then (store w)(conversation_scope ctx := None) else store w)"
  by (simp add: onTurnError_def conversationState_delete_def sendActivity_def Let_def
      split: option.splits)

lemma onTurnError_outbox:
  "outbox (snd (snd (onTurnError ctx error w))) =
     (if store_failure w = None \<and> send_failure w = None
      then outbox w @ [MessageActivity (apology_text error)] else outbox w)"
  by (simp add: onTurnError_def conversationState_delete_def sendActivity_def Let_def
      split: option.splits)

lemma apology_text_stack: "apology_text (error\<lparr>stack := s\<rparr>) = apology_text error"
  by (simp add: apology_text_def errorMsg_def)

text \<open>
  Claim C1, as amended. In every turn in which the handler throws and both recovery
  steps complete (the store accepts the deletion, the channel the delivery), the error
  boundary deletes the Conversation State of the conversation: the bag cached in the
  context is dropped, the store has no entry for the scope, and the scope reads as the
  empty bag. It sends exactly one outbound message activity, whose text is the apology
  prefix followed by the error's message text, or by the default text when the error has
  none. The stack trace is not used for the text: errors that differ only in their stack
  trace produce the same activity.
\<close>

theorem error_boundary_resets_and_apologises:
  assumes "store_failure w = None" and "send_failure w = None"
  shows "fst (onTurnError ctx error w) = Inr () \<and>
         conversation_cached (fst (snd (onTurnError ctx error w))) = None \<and>
         store (snd (snd (onTurnError ctx error w))) (conversation_scope ctx) = None \<and>
         stored_bag (snd (snd (onTurnError ctx error w))) (conversation_scope ctx) = [] \<and>
         outbox (snd (snd (onTurnError ctx error w))) =
           outbox w @
           [MessageActivity
              (apology_prefix @
               (case message error of
                  None \<Rightarrow> default_error_text
                | Some m \<Rightarrow> if m = [] then default_error_text else m))] \<and>
         outbox (snd (snd (onTurnError ctx (error\<lparr>stack := s\<rparr>) w))) =
           outbox (snd (snd (onTurnError ctx error w)))"
proof -
  have wording: "apology_text error =
      apology_prefix @
        (case message error of
           None \<Rightarrow> default_error_text
         | Some m \<Rightarrow> if m = [] then default_error_text else m)"
    by (simp add: apology_text_def errorMsg_def or_default_def)
  have stable: "outbox (snd (snd (onTurnError ctx (error\<lparr>stack := s\<rparr>) w))) =
      outbox (snd (snd (onTurnError ctx error w)))"
    by (simp add: onTurnError_outbox apology_text_stack)
  show ?thesis
    using stable wording
    by (simp add: onTurnError_ok[OF assms] stored_bag_def)
qed

theorem error_boundary_resets_and_apologises_witness:
  "store_failure sample_world = None \<and> send_failure sample_world = None \<and>
   fst (onTurnError sample_context sample_error sample_world) = Inr () \<and>
   conversation_cached (fst (snd (onTurnError sample_context sample_error sample_world))) = None \<and>
   store (snd (snd (onTurnError sample_context sample_error sample_world)))
     (ConversationScope ''msteams'' ''c1'') = None \<and>
   outbox (snd (snd (onTurnError sample_context sample_error sample_world))) =
     [MessageActivity (''Lo siento, ocurri'' @ oacute @ '' un error. boom'')]"
proof -
  have h1: "store_failure sample_world = None" and h2: "send_failure sample_world = None"
    by (simp_all add: sample_world_def boot_world_def)
  have sc: "conversation_scope sample_context = ConversationScope ''msteams'' ''c1''"
    by (simp add: conversation_scope_def sample_context_def sample_activity_def)
  have ob: "outbox sample_world = []"
    by (simp add: sample_world_def boot_world_def)
  from error_boundary_resets_and_apologises[OF h1 h2, of sample_context sample_error]
  show ?thesis
    using h1 h2 by (simp add: sc ob sample_error_def apology_prefix_def)
qed

text \<open>
  The claim as written fails for a turn whose recovery does not complete: the handler
  has thrown, the state is deleted, but the channel rejects the delivery, so no
  activity reaches the user and the error boundary itself throws.
\<close>

theorem error_boundary_undelivered_apology:
  "fst (onTurnError sample_context sample_error offline_world) = Inl network_error \<and>
   outbox (snd (snd (onTurnError sample_context sample_error offline_world))) = []"
  by (simp add: onTurnError_def conversationState_delete_def sendActivity_def Let_def
      offline_world_def sample_world_def boot_world_def)

text \<open>
  Claim C9. The error boundary changes no entry of the store but the one of the turn's
  Conversation State scope: every User State entry is what it was, and so is the rest
  of the store, whether the recovery completes or not.
\<close>

theorem error_boundary_keeps_user_state:
  "store (snd (snd (onTurnError ctx error w))) (UserScope c u) = store w (UserScope c u) \<and>
   (store (snd (snd (onTurnError ctx error w))))(conversation_scope ctx := None) =
     (store w)(conversation_scope ctx := None)"
  by (simp add: onTurnError_store conversation_scope_def)

theorem error_boundary_keeps_user_state_witness:
  "store (snd (snd (onTurnError sample_context sample_error sample_world)))
     (UserScope ''msteams'' ''u1'') = Some [(''lang'', JStr ''es'')]"
  using error_boundary_keeps_user_state[of sample_context sample_error sample_world
      "''msteams''" "''u1''"]
  by (simp add: sample_world_def)

text \<open>
  Claim C10. When the error carries no message text (the message is absent or empty),
  the apology that the error boundary sends is the prefix followed by the fixed default
  text, so the text after the prefix is not empty.
\<close>

theorem default_text_when_no_message:
  assumes "message error = None \<or> message error = Some []"
    and "fst (onTurnError ctx error w) = Inr ()"
  shows "outbox (snd (snd (onTurnError ctx error w))) =
           outbox w @
           [MessageActivity
              (''Lo siento, ocurri'' @ oacute @ '' un error. Ocurri'' @ oacute @
               '' un error inesperado.'')] \<and>
         errorMsg error = ''Ocurri'' @ oacute @ '' un error inesperado.''"
proof -
  have ok: "store_failure w = None \<and> send_failure w = None"
    using assms(2)
    by (auto simp: onTurnError_def conversationState_delete_def sendActivity_def Let_def
        split: option.splits)
  have "errorMsg error = default_error_text"
    using assms(1) by (auto simp: errorMsg_def or_default_def)
  then show ?thesis
    using ok
    by (simp add: onTurnError_outbox apology_text_def apology_prefix_def default_error_text_def)
qed

theorem default_text_when_no_message_witness:
  "(message silent_error = None \<or> message silent_error = Some []) \<and>
   fst (onTurnError sample_context silent_error sample_world) = Inr () \<and>
   outbox (snd (snd (onTurnError sample_context silent_error sample_world))) =
     [MessageActivity
        (''Lo siento, ocurri'' @ oacute @ '' un error. Ocurri'' @ oacute @
         '' un error inesperado.'')]"
proof -
  have h1: "message silent_error = None \<or> message silent_error = Some []"
    by (simp add: silent_error_def)
  have h2: "fst (onTurnError sample_context silent_error sample_world) = Inr ()"
    by (simp add: onTurnError_def conversationState_delete_def sendActivity_def Let_def
        sample_world_def boot_world_def)
  have ob: "outbox sample_world = []"
    by (simp add: sample_world_def boot_world_def)
  from default_text_when_no_message[OF h1 h2] h1 h2 ob show ?thesis by simp
qed

section \<open>Startup\<close>

lemma handle_event_exited: "status w = Exited n \<Longrightarrow> handle_event files b ev w = w"
  by (cases ev) (simp_all add: handle_event_def unobserved_rejection_def)

lemma run_events_exited: "status w = Exited n \<Longrightarrow> run_events files b evs w = w"
  by (induction evs) (simp_all add: handle_event_exited)

text \<open>
  Claim C3. When the connection name is unset (neither variable gives a non-empty
  value), startup ends in \<^verbatim>\<open>process.exit(1)\<close> with no port bound, and whatever
  happens afterwards the process stays as it is: it never serves a request.
\<close>

theorem no_listen_without_connection_name:
  assumes "\<not> truthy (connectionName env)"
  shows "status (startup env boot_world) = Exited 1 \<and>
         listening (startup env boot_world) = None \<and>
         run_events files b evs (startup env boot_world) = startup env boot_world"
proof -
  have st: "status (startup env boot_world) = Exited 1"
    using assms by (simp add: startup_def)
  have "listening (startup env boot_world) = None"
    using assms by (simp add: startup_def boot_world_def)
  with st run_events_exited[OF st] show ?thesis by simp
qed

theorem no_listen_without_connection_name_witness:
  "\<not> truthy (connectionName Map.empty) \<and>
   status (startup Map.empty boot_world) = Exited 1 \<and>
   listening (startup Map.empty boot_world) = None \<and>
   run_events Map.empty sample_bot [Request plain_callback] (startup Map.empty boot_world) =
     startup Map.empty boot_world"
proof -
  have h: "\<not> truthy (connectionName Map.empty)"
    by (simp add: connectionName_def js_or_def truthy_def)
  from no_listen_without_connection_name[OF h, of Map.empty sample_bot "[Request plain_callback]"] h
  show ?thesis by simp
qed

section \<open>The OAuth callback\<close>

lemma length_htmlContent: "byteLength htmlContent = 290"
  by (simp add: byteLength_def htmlContent_def newline_def oacute_def)

lemma serve_oauthcallback:
  assumes "verb req = GET" and "path req = ''/oauthcallback''"
  shows "serve files b req w =
     (\<lparr>statusCode = 200,
       headers =
         [''Access-Control-Allow-Origin'' \<mapsto> Str ''*'',
          ''Access-Control-Allow-Headers'' \<mapsto>
             Str ''X-Requested-With, Content-Type, Accept, Origin, Authorization'',
          ''Access-Control-Allow-Methods'' \<mapsto> Str ''GET, POST, PUT, DELETE, OPTIONS'',
          ''Content-Length'' \<mapsto> Num (byteLength htmlContent),
          ''Content-Type'' \<mapsto> Str ''text/html''],
       content = htmlContent\<rparr>,
      w\<lparr>console := console w @ [ConsoleLog ''Recibida solicitud a /oauthcallback'']\<rparr>)"
  using assms
  by (simp add: serve_def find_route_def known_path_def route_method_def bodyParser_def
      oauthcallback_def crossOrigin_def fresh_response_def)

text \<open>
  Claim C4. Two GET requests to \<^verbatim>\<open>/oauthcallback\<close>, one without query parameters and
  one with any query, in any two states of the world, get the same response: status
  200, the fixed HTML document as content, \<^verbatim>\<open>Content-Length\<close> set to its 290 bytes and
  \<^verbatim>\<open>Content-Type\<close> to \<^verbatim>\<open>text/html\<close>. The response does not depend on the store, and
  the store is left as it was.
\<close>

theorem oauthcallback_fixed_response:
  assumes "verb req1 = GET" and "path req1 = ''/oauthcallback''" and "query req1 = []"
    and "verb req2 = GET" and "path req2 = ''/oauthcallback''"
  shows "fst (serve files b req1 w1) = fst (serve files b req2 w2) \<and>
         statusCode (fst (serve files b req2 w2)) = 200 \<and>
         content (fst (serve files b req2 w2)) = htmlContent \<and>
         headers (fst (serve files b req2 w2)) ''Content-Length'' = Some (Num 290) \<and>
         headers (fst (serve files b req2 w2)) ''Content-Type'' = Some (Str ''text/html'') \<and>
         store (snd (serve files b req2 w2)) = store w2"
  by (simp add: serve_oauthcallback[OF assms(1,2)] serve_oauthcallback[OF assms(4,5)]
      length_htmlContent)

theorem oauthcallback_fixed_response_witness:
  "verb plain_callback = GET \<and> path plain_callback = ''/oauthcallback'' \<and>
   query plain_callback = [] \<and>
   verb query_callback = GET \<and> path query_callback = ''/oauthcallback'' \<and>
   query query_callback = ''code=abc&state=xyz'' \<and>
   fst (serve Map.empty sample_bot plain_callback boot_world) =
     fst (serve Map.empty sample_bot query_callback sample_world) \<and>
   statusCode (fst (serve Map.empty sample_bot query_callback sample_world)) = 200 \<and>
   content (fst (serve Map.empty sample_bot query_callback sample_world)) = htmlContent \<and>
   store (snd (serve Map.empty sample_bot query_callback sample_world)) = store sample_world"
proof -
  have h: "verb plain_callback = GET" "path plain_callback = ''/oauthcallback''"
    "query plain_callback = []"
    "verb query_callback = GET" "path query_callback = ''/oauthcallback''"
    by (simp_all add: plain_callback_def query_callback_def)
  have q: "query query_callback = ''code=abc&state=xyz''"
    by (simp add: query_callback_def)
  from oauthcallback_fixed_response[OF h, of Map.empty sample_bot boot_world sample_world] h q
  show ?thesis by simp
qed

section \<open>Turn-state injection\<close>

text \<open>
  What the middleware does to the request: it stores the bot under the key \<^verbatim>\<open>bot\<close>
  in the \<^verbatim>\<open>turnState\<close> property of the request, creating the bag when there is none;
  setting twice is setting once, and a value set before is overwritten.
\<close>

lemma addBotToTurnState_sets_key:
  "Option.bind (turnState (addBotToTurnState b req)) (\<lambda>m. m ''bot'') = Some b \<and>
   addBotToTurnState b (addBotToTurnState b req) = addBotToTurnState b req \<and>
   Option.bind (turnState (addBotToTurnState b (addBotToTurnState b' req))) (\<lambda>m. m ''bot'')
     = Some b"
  by (simp add: addBotToTurnState_def)

text \<open>
  What becomes of it: nothing. The turn context is built from the body of the request,
  and the dispatch of line 124 takes the bot from the module constant, so the route
  does the same with and without the middleware, for every request.
\<close>

lemma turnState_is_never_read:
  "turn_context_of (body (addBotToTurnState b' req)) = turn_context_of (body req) \<and>
   api_messages b (addBotToTurnState b' req) res w = api_messages b req res w"
  by (simp add: addBotToTurnState_def api_messages_def adapter_process_def)


section \<open>The save point\<close>

lemma turn_context_of_fresh:
  "turn_context_of p = Inr ctx \<Longrightarrow>
     conversation_cached ctx = None \<and> user_cached ctx = None"
  by (auto simp: turn_context_of_def split: payload.splits option.splits)

lemma run_handler_Inr:
  assumes "run_handler h ctx w = (Inr v, ctx', w')"
    and "conversation_cached ctx = None" and "user_cached ctx = None"
  shows "store_failure w = None \<and>
         conversation_cached ctx' =
           Some (conversation_after (h (turn_activity ctx)
                  (stored_bag w (conversation_scope ctx))
                  (stored_bag w (user_scope ctx)))) \<and>
         turn_activity ctx' = turn_activity ctx"
  using assms
  by (auto simp: run_handler_def load_state_def Let_def
      split: option.splits sum.splits prod.splits)

text \<open>
  Claim C2. Take a well-formed message activity and a turn on it that completes. While
  the handler runs, up to the save point, the store is what it was before the turn, so
  no other turn can read the handler's changes. After the turn the store holds, for the
  conversation, the bag the handler left, and a later turn in the same conversation
  that starts from this store loads exactly that bag.
\<close>

theorem flushed_state_visible_to_next_turn:
  assumes ctx: "turn_context_of p = Inr ctx"
    and msg: "activity_type (turn_activity ctx) = ''message''"
    and ok: "fst (bot_run b ctx w) = Inr v"
    and nxt: "turn_context_of p2 = Inr ctx2"
    and same: "conversation_scope ctx2 = conversation_scope ctx"
  shows "store (snd (snd (dispatch b ctx w))) = store w \<and>
         store (snd (snd (bot_run b ctx w))) (conversation_scope ctx) =
           Some (conversation_after (on_message b (turn_activity ctx)
                   (stored_bag w (conversation_scope ctx))
                   (stored_bag w (user_scope ctx)))) \<and>
         load_state (conversation_scope ctx2) (conversation_cached ctx2)
             (snd (snd (bot_run b ctx w))) =
           Inr (conversation_after (on_message b (turn_activity ctx)
                   (stored_bag w (conversation_scope ctx))
                   (stored_bag w (user_scope ctx))))"
proof -
  let ?bag = "conversation_after (on_message b (turn_activity ctx)
                   (stored_bag w (conversation_scope ctx))
                   (stored_bag w (user_scope ctx)))"
  obtain ctx' w' where run: "bot_run b ctx w = (Inr v, ctx', w')"
    using ok by (cases "bot_run b ctx w") auto
  note fresh = turn_context_of_fresh[OF ctx]
  obtain r1 c1 w1 where d: "dispatch b ctx w = (r1, c1, w1)"
    by (cases "dispatch b ctx w") auto
  from run d obtain v1 where r1: "r1 = Inr v1"
    by (cases r1) (auto simp: bot_run_def)
  from d r1 msg have rh: "run_handler (on_message b) ctx w = (Inr v1, c1, w1)"
    by (simp add: dispatch_def Let_def)
  note h = run_handler_Inr[OF rh fresh[THEN conjunct1] fresh[THEN conjunct2]]
  note f = run_handler_frame[OF rh]
  have sf: "store_failure w1 = None" using h f by (simp add: same_process_def)
  have cs: "conversation_scope c1 = conversation_scope ctx"
    using h by (simp add: conversation_scope_def)
  have st: "store w' (conversation_scope ctx) = Some ?bag"
    using run d r1 h sf cs
    by (auto simp: bot_run_def saveChanges_def user_scope_def conversation_scope_def
        split: option.splits prod.splits sum.splits)
  have sf': "store_failure w' = None"
    using bot_run_frame[OF run] h by (simp add: same_process_def)
  have "load_state (conversation_scope ctx2) (conversation_cached ctx2) w' = Inr ?bag"
    using turn_context_of_fresh[OF nxt] sf' st same
    by (simp add: load_state_def stored_bag_def)
  with st dispatch_store run show ?thesis by simp
qed

lemma first_turn_counts_one:
  "bot_run sample_bot fresh_context boot_world =
     (Inr None,
      fresh_context\<lparr>conversation_cached := Some [(''count'', JNum 1)], user_cached := Some []\<rparr>,
      boot_world\<lparr>store := [ConversationScope ''msteams'' ''c1'' \<mapsto> [(''count'', JNum 1)],
                            UserScope ''msteams'' ''u1'' \<mapsto> []]\<rparr>)"
  by (simp add: bot_run_def dispatch_def run_handler_def load_state_def saveChanges_def
      stored_bag_def conversation_scope_def user_scope_def Let_def
      fresh_context_def sample_activity_def sample_bot_def counting_handler_def boot_world_def)

lemma second_turn_counts_two:
  "store (snd (snd (bot_run sample_bot fresh_context
       (snd (snd (bot_run sample_bot fresh_context boot_world))))))
     (ConversationScope ''msteams'' ''c1'') = Some [(''count'', JNum 2)]"
  unfolding first_turn_counts_one
  by (simp add: bot_run_def dispatch_def run_handler_def load_state_def saveChanges_def
      stored_bag_def conversation_scope_def user_scope_def Let_def
      fresh_context_def sample_activity_def sample_bot_def counting_handler_def boot_world_def)

theorem flushed_state_visible_to_next_turn_witness:
  "turn_context_of (Json sample_body) = Inr fresh_context \<and>
   activity_type (turn_activity fresh_context) = ''message'' \<and>
   fst (bot_run sample_bot fresh_context boot_world) = Inr None \<and>
   store (snd (snd (dispatch sample_bot fresh_context boot_world))) = store boot_world \<and>
   store (snd (snd (bot_run sample_bot fresh_context boot_world)))
     (ConversationScope ''msteams'' ''c1'') = Some [(''count'', JNum 1)] \<and>
   load_state (ConversationScope ''msteams'' ''c1'') None
     (snd (snd (bot_run sample_bot fresh_context boot_world))) = Inr [(''count'', JNum 1)]"
proof -
  have h1: "turn_context_of (Json sample_body) = Inr fresh_context"
    by (simp add: turn_context_of_def sample_body_def fresh_context_def sample_activity_def)
  have h2: "activity_type (turn_activity fresh_context) = ''message''"
    by (simp add: fresh_context_def sample_activity_def)
  have h3: "fst (bot_run sample_bot fresh_context boot_world) = Inr None"
    by (simp add: first_turn_counts_one)
  have sc: "conversation_scope fresh_context = ConversationScope ''msteams'' ''c1''"
    by (simp add: conversation_scope_def fresh_context_def sample_activity_def)
  have bag: "conversation_after (on_message sample_bot (turn_activity fresh_context)
       (stored_bag boot_world (conversation_scope fresh_context))
       (stored_bag boot_world (user_scope fresh_context))) = [(''count'', JNum 1)]"
    by (simp add: sample_bot_def counting_handler_def stored_bag_def boot_world_def)
  have cc: "conversation_cached fresh_context = None"
    by (simp add: fresh_context_def)
  from flushed_state_visible_to_next_turn[OF h1 h2 h3 h1 refl] h1 h2 h3
  show ?thesis by (simp add: sc cc bag[unfolded sc])
qed

section \<open>Dispatch failures\<close>

text \<open>
  The adapter throws in two cases only: no turn context can be built, or the logic has
  thrown and the error boundary throws too. The error boundary throws exactly when one
  of its two recovery steps is rejected.
\<close>

lemma adapter_process_throws_cases:
  assumes "fst (adapter_process logic req res w) = Inl e"
  shows "turn_context_of (body req) = Inl e \<or>
         (\<exists>ctx error. turn_context_of (body req) = Inr ctx \<and>
            fst (logic ctx w) = Inl error \<and>
            fst (onTurnError (fst (snd (logic ctx w))) error (snd (snd (logic ctx w)))) = Inl e)"
  using assms
  by (auto simp: adapter_process_def split: sum.splits prod.splits)

lemma onTurnError_throws_cases:
  "fst (onTurnError ctx error w) = Inl e \<longleftrightarrow>
     store_failure w = Some e \<or> (store_failure w = None \<and> send_failure w = Some e)"
  by (auto simp: onTurnError_def conversationState_delete_def sendActivity_def Let_def
      split: option.splits)





section \<open>Unobserved rejections\<close>

lemma handle_event_alive:
  assumes "alive w"
  shows "alive (handle_event files b ev w) \<and>
         (\<exists>ls. console (handle_event files b ev w) = console w @ ls)"
proof (cases ev)
  case (Rejection reason)
  with assms show ?thesis
    by (simp add: handle_event_def unobserved_rejection_def unhandledRejection_def alive_def)
next
  case (Request req)
  show ?thesis
  proof (cases "listening w")
    case None
    with Request assms show ?thesis by (simp add: handle_event_def alive_def)
  next
    case (Some p)
    obtain res w' where s: "serve files b req w = (res, w')" by (cases "serve files b req w")
    from serve_frame[OF s] assms Request Some s show ?thesis
      by (auto simp: handle_event_def alive_def same_process_def)
  qed
qed

lemma run_events_alive:
  "alive w \<Longrightarrow> alive (run_events files b evs w) \<and>
     (\<exists>ls. console (run_events files b evs w) = console w @ ls)"
proof (induction evs arbitrary: w)
  case Nil
  then show ?case by simp
next
  case (Cons ev evs)
  from handle_event_alive[OF Cons.prems, of files b ev]
  obtain ls where a: "alive (handle_event files b ev w)"
    and c: "console (handle_event files b ev w) = console w @ ls" by blast
  from Cons.IH[OF a] c show ?case by auto
qed

lemma run_events_logs:
  "alive w \<Longrightarrow> Rejection reason \<in> set evs \<Longrightarrow>
     ConsoleError (''Unhandled Promise Rejection: '' @ reason)
       \<in> set (console (run_events files b evs w))"
proof (induction evs arbitrary: w)
  case Nil
  then show ?case by simp
next
  case (Cons ev evs)
  from handle_event_alive[OF Cons.prems(1), of files b ev]
  have a: "alive (handle_event files b ev w)" by blast
  show ?case
  proof (cases "ev = Rejection reason")
    case True
    with Cons.prems(1)
    have "ConsoleError (''Unhandled Promise Rejection: '' @ reason)
            \<in> set (console (handle_event files b ev w))"
      by (simp add: handle_event_def unobserved_rejection_def unhandledRejection_def alive_def)
    with run_events_alive[OF a, of files b evs] show ?thesis by auto
  next
    case False
    with Cons.prems(2) have "Rejection reason \<in> set evs" by simp
    from Cons.IH[OF a this] show ?thesis by simp
  qed
qed

lemma startup_alive: "truthy (connectionName env) \<Longrightarrow> alive (startup env boot_world)"
  by (simp add: startup_def boot_world_def alive_def)

text \<open>
  Claim C7. In a process that has started, whatever requests and unobserved rejections
  follow, every unobserved rejection is logged by the listener of line 165 and the
  process is still running afterwards: the listener only logs, and with it installed the
  runtime does not end the process.
\<close>

theorem unobserved_rejection_logged_process_alive:
  assumes "truthy (connectionName env)" and "Rejection reason \<in> set evs"
  shows "status (run_events files b evs (startup env boot_world)) = Running \<and>
         ConsoleError (''Unhandled Promise Rejection: '' @ reason)
           \<in> set (console (run_events files b evs (startup env boot_world)))"
  using run_events_alive[OF startup_alive[OF assms(1)], of files b evs]
    run_events_logs[OF startup_alive[OF assms(1)] assms(2), of files b]
  by (simp add: alive_def)

theorem unobserved_rejection_logged_process_alive_witness:
  "truthy (connectionName sample_env) \<and>
   Rejection ''Error: timeout'' \<in> set [Request plain_callback, Rejection ''Error: timeout''] \<and>
   status (run_events Map.empty sample_bot [Request plain_callback, Rejection ''Error: timeout'']
            (startup sample_env boot_world)) = Running \<and>
   ConsoleError ''Unhandled Promise Rejection: Error: timeout''
     \<in> set (console (run_events Map.empty sample_bot
           [Request plain_callback, Rejection ''Error: timeout''] (startup sample_env boot_world)))"
proof -
  have h1: "truthy (connectionName sample_env)"
    by (simp add: connectionName_def js_or_def truthy_def sample_env_def)
  have h2: "Rejection ''Error: timeout'' \<in> set [Request plain_callback, Rejection ''Error: timeout'']"
    by simp
  from unobserved_rejection_logged_process_alive[OF h1 h2, of Map.empty sample_bot] h1
  show ?thesis by simp
qed

section \<open>Cross-origin headers\<close>

text \<open>
  The three headers are on every response to a request that matches a route and that
  the body parser lets through; no route handler removes them.
\<close>

lemma cross_origin_headers_after_parser:
  assumes "find_route req = Inr r" and "bodyParser req"
  shows "headers (fst (serve files b req w)) ''Access-Control-Allow-Origin'' = Some (Str ''*'') \<and>
         headers (fst (serve files b req w)) ''Access-Control-Allow-Methods'' =
           Some (Str ''GET, POST, PUT, DELETE, OPTIONS'') \<and>
         headers (fst (serve files b req w)) ''Access-Control-Allow-Headers'' =
           Some (Str ''X-Requested-With, Content-Type, Accept, Origin, Authorization'')"
proof (cases r)
  case ApiMessages
  obtain t res' w' where a:
    "api_messages b (addBotToTurnState b req) (crossOrigin fresh_response) w = ((t, res'), w')"
    by (cases "api_messages b (addBotToTurnState b req) (crossOrigin fresh_response) w") auto
  from api_messages_headers[OF a] have "headers res' = headers (crossOrigin fresh_response)" .
  with assms ApiMessages a show ?thesis
    by (simp add: serve_def crossOrigin_def Let_def)
next
  case PublicFiles
  with assms show ?thesis
    by (simp add: serve_def crossOrigin_def serveStatic_def Let_def split: option.splits)
next
  case OAuthCallback
  with assms show ?thesis
    by (simp add: serve_def crossOrigin_def oauthcallback_def Let_def)
qed

text \<open>
  The preflight that the headers announce is not among them: an OPTIONS request to the
  messages path has no route, so the router answers it with 405 and none of the headers.
\<close>

lemma preflight_has_no_cross_origin_headers:
  "statusCode (fst (serve Map.empty sample_bot (sample_request\<lparr>verb := OPTIONS\<rparr>) sample_world))
     = 405 \<and>
   headers (fst (serve Map.empty sample_bot (sample_request\<lparr>verb := OPTIONS\<rparr>) sample_world))
     ''Access-Control-Allow-Origin'' = None"
  by (simp add: serve_def find_route_def known_path_def route_method_def
      sample_request_def fresh_response_def)

text \<open>
  Claim C8. The claim asks for the cross-origin headers on every response, and the code
  registers \<open>crossOrigin\<close> server-wide to set them. It is registered after the body
  parser, though (line 82 after line 70), and the parser ends a request whose body it
  cannot parse: on the messages route such a request is answered with 400 and none of
  the headers.
\<close>

theorem rejected_body_has_no_cross_origin_headers:
  "find_route unparsable_request = Inr ApiMessages \<and>
   statusCode (fst (serve Map.empty sample_bot unparsable_request sample_world)) = 400 \<and>
   headers (fst (serve Map.empty sample_bot unparsable_request sample_world))
     ''Access-Control-Allow-Origin'' = None \<and>
   headers (fst (serve Map.empty sample_bot unparsable_request sample_world))
     ''Access-Control-Allow-Methods'' = None"
  by (simp add: serve_def find_route_def known_path_def route_method_def bodyParser_def
      unparsable_request_def fresh_response_def)

end
